theory Spec2Isabelle
  imports Main
begin

section \<open>The hermes command adapter (relayer/hermes/hermes\_relayer.go)\<close>

text \<open>
  Go strings are byte sequences; they are modelled as \<^typ>\<open>string\<close> (a list of 8-bit
  characters). A Go \<open>[]string\<close> is a \<^typ>\<open>string list\<close>. The logger held by the
  \<open>commander\<close> only receives messages and never influences a return value, so it is
  left out of the model; every branch that logs is still a branch of the model.
\<close>

subsection \<open>The library functions \<open>strings.Join\<close>, \<open>filepath.Clean\<close> and \<open>filepath.Join\<close>\<close>

text \<open>
  The command builders call \<open>filepath.Join\<close> of the Go standard library. The
  definitions below follow the library's Unix implementation (separator \<open>/\<close>, no volume
  names): \<open>Join\<close> drops leading empty elements, joins the rest with the separator and
  cleans the result; \<open>Clean\<close> scans the path once, writing to an output buffer.
\<close>

definition Separator :: char where
  "Separator = CHR ''/''"

fun strings_Join :: "string list \<Rightarrow> string \<Rightarrow> string" where
  "strings_Join [] sep = []"
| "strings_Join [e] sep = e"
| "strings_Join (e # es) sep = e @ sep @ strings_Join es sep"

text \<open>
  The backtracking step of \<open>Clean\<close> for a \<open>..\<close> element: the write index \<open>w\<close> has
  already been decremented once; it moves further back while it is above \<open>dotdot\<close> and the
  byte at \<open>w\<close> is not a separator.
\<close>

fun backtrack :: "string \<Rightarrow> nat \<Rightarrow> nat \<Rightarrow> nat" where
  "backtrack out dotdot 0 = 0"
| "backtrack out dotdot (Suc w) =
     (if Suc w > dotdot \<and> out ! (Suc w) \<noteq> Separator then backtrack out dotdot w else Suc w)"

text \<open>
  The main loop of \<open>Clean\<close>. The first argument is \<open>rooted\<close>, the second the unread
  rest of the path (\<open>path[r:]\<close>), the third the output written so far (\<open>out.w\<close> is its
  length), the fourth \<open>dotdot\<close>. The four branches are the four cases of the library's
  \<open>switch\<close>, in its order: an empty element, a \<open>.\<close> element, a \<open>..\<close> element, a
  real element.
\<close>

function clean_loop :: "bool \<Rightarrow> string \<Rightarrow> string \<Rightarrow> nat \<Rightarrow> string" where
  "clean_loop rooted [] out dotdot = out"
| "clean_loop rooted (c # rest) out dotdot =
     (if c = Separator then clean_loop rooted rest out dotdot
      else if c = CHR ''.'' \<and> (rest = [] \<or> hd rest = Separator)
        then clean_loop rooted rest out dotdot
      else if c = CHR ''.'' \<and> hd rest = CHR ''.'' \<and> (tl rest = [] \<or> hd (tl rest) = Separator)
        then (if length out > dotdot
                then clean_loop rooted (tl rest)
                       (take (backtrack out dotdot (length out - 1)) out) dotdot
              else if \<not> rooted
                then clean_loop rooted (tl rest)
                       ((if length out > 0 then out @ [Separator] else out) @ ''..'')
                       (length ((if length out > 0 then out @ [Separator] else out) @ ''..''))
              else clean_loop rooted (tl rest) out dotdot)
      else clean_loop rooted (dropWhile (\<lambda>x. x \<noteq> Separator) rest)
             ((if rooted \<and> length out \<noteq> 1 \<or> \<not> rooted \<and> length out \<noteq> 0
                 then out @ [Separator] else out)
              @ c # takeWhile (\<lambda>x. x \<noteq> Separator) rest)
             dotdot)"
  by pat_completeness auto
termination
proof (relation "measure (\<lambda>(rooted, path, out, dotdot). length path)")
  fix rooted :: bool and c :: char and rest out :: string and dotdot :: nat
  have "length (dropWhile (\<lambda>x. x \<noteq> Separator) rest) \<le> length rest"
    by (rule length_dropWhile_le)
  then show "((rooted, dropWhile (\<lambda>x. x \<noteq> Separator) rest,
        (if rooted \<and> length out \<noteq> 1 \<or> \<not> rooted \<and> length out \<noteq> 0
           then out @ [Separator] else out) @ c # takeWhile (\<lambda>x. x \<noteq> Separator) rest, dotdot),
       rooted, c # rest, out, dotdot)
      \<in> measure (\<lambda>(rooted, path, out, dotdot). length path)"
    by simp
qed (auto simp: less_Suc_eq_le)

definition Clean :: "string \<Rightarrow> string" where
  "Clean path =
     (if path = [] then ''.''
      else let rooted = (hd path = Separator);
               out = clean_loop rooted (if rooted then tl path else path)
                       (if rooted then [Separator] else []) (if rooted then 1 else 0)
           in if out = [] then ''.'' else out)"

fun filepath_Join :: "string list \<Rightarrow> string" where
  "filepath_Join [] = []"
| "filepath_Join (e # es) =
     (if e \<noteq> [] then Clean (strings_Join (e # es) [Separator]) else filepath_Join es)"

subsection \<open>Command builders\<close>

definition Init :: "string \<Rightarrow> string list" where
  "Init homeDir = [''hermes'', ''config'', ''init'', ''--home'', homeDir]"

definition AddChainConfiguration :: "string \<Rightarrow> string \<Rightarrow> string list" where
  "AddChainConfiguration containerFilePath homeDir =
     [''hermes'', ''chains'', ''add'', ''-f'', containerFilePath, ''--home'', homeDir]"

definition AddKey :: "string \<Rightarrow> string \<Rightarrow> string \<Rightarrow> string list" where
  "AddKey chainID keyName homeDir =
     [''hermes'', ''keys'', ''add'', chainID, ''-n'', keyName,
      ''-c'', filepath_Join [homeDir, ''hermes'', ''config.toml''],
      ''-j'']"

text \<open>
  The four lookups of identifiers from a path name. Each returns a Go pair
  \<open>(string, error)\<close>, modelled as a pair whose second component is \<open>None\<close> for a
  \<open>nil\<close> error. In the source all four are stubs that return \<open>("", nil)\<close>.
\<close>

datatype error = Error string

type_synonym lookup = "string \<Rightarrow> string \<Rightarrow> string \<times> error option"

definition getSourceChainIDFromPath :: lookup where
  "getSourceChainIDFromPath pathName homedir = ('''', None)"

definition getDestinationChainIDFromPath :: lookup where
  "getDestinationChainIDFromPath pathName homedir = ('''', None)"

definition getDestinationClientIDFromPath :: lookup where
  "getDestinationClientIDFromPath pathName homedir = ('''', None)"

definition getSourcePortIDFromPath :: lookup where
  "getSourcePortIDFromPath pathName homedir = ('''', None)"

text \<open>
  The four builders that look identifiers up are each written in two steps: the body of
  the Go method, with the lookup methods it calls as the first two arguments (so that
  its error branches can be exercised), and the method itself, which is that body with
  the commander's own lookups.
\<close>

definition ClearQueue_body :: "lookup \<Rightarrow> lookup \<Rightarrow> string \<Rightarrow> string \<Rightarrow> string \<Rightarrow> string list" where
  "ClearQueue_body getSourceChainID getSourcePortID pathName channelID homeDir =
     (case getSourceChainID pathName homeDir of (chainID, err) \<Rightarrow>
        if err \<noteq> None then []
        else case getSourcePortID pathName homeDir of (portID, err) \<Rightarrow>
          if err \<noteq> None then []
          else [''hermes'', ''clear'', ''packets'', chainID, portID, channelID,
                ''-c'', filepath_Join [homeDir, ''config.toml''],
                ''-j''])"

definition ClearQueue :: "string \<Rightarrow> string \<Rightarrow> string \<Rightarrow> string list" where
  "ClearQueue = ClearQueue_body getSourceChainIDFromPath getSourcePortIDFromPath"

text \<open>
  \<open>CreateChannel\<close> and \<open>LinkPath\<close> take an \<open>ibc.CreateChannelOptions\<close>, a type
  declared outside the two source files; neither function reads it, so it is a type
  parameter.
\<close>

definition CreateChannel :: "string \<Rightarrow> 'opts \<Rightarrow> string \<Rightarrow> string list" where
  "CreateChannel pathName opts homeDir = []"

definition CreateClients_body :: "lookup \<Rightarrow> lookup \<Rightarrow> string \<Rightarrow> string \<Rightarrow> string list" where
  "CreateClients_body getSourceChainID getDestinationChainID pathName homeDir =
     (case getSourceChainID pathName homeDir of (srcChainID, err) \<Rightarrow>
        if err \<noteq> None then []
        else case getDestinationChainID pathName homeDir of (dstChainID, err) \<Rightarrow>
          if err \<noteq> None then []
          else [''hermes'', ''create'', ''client'', srcChainID, dstChainID,
                ''-c'', filepath_Join [homeDir, ''config.toml''],
                ''-j''])"

definition CreateClients :: "string \<Rightarrow> string \<Rightarrow> string list" where
  "CreateClients = CreateClients_body getSourceChainIDFromPath getDestinationChainIDFromPath"

definition CreateConnections_body :: "lookup \<Rightarrow> lookup \<Rightarrow> string \<Rightarrow> string \<Rightarrow> string list" where
  "CreateConnections_body getSourceChainID getDestinationChainID pathName homeDir =
     (case getSourceChainID pathName homeDir of (srcChainID, err) \<Rightarrow>
        if err \<noteq> None then []
        else case getDestinationChainID pathName homeDir of (dstChainID, err) \<Rightarrow>
          if err \<noteq> None then []
          else [''hermes'', ''tx'', ''connection'', srcChainID, dstChainID,
                ''-c'', filepath_Join [homeDir, ''config.toml''],
                ''-j''])"

definition CreateConnections :: "string \<Rightarrow> string \<Rightarrow> string list" where
  "CreateConnections =
     CreateConnections_body getSourceChainIDFromPath getDestinationChainIDFromPath"

definition FlushAcknowledgements :: "string \<Rightarrow> string \<Rightarrow> string \<Rightarrow> string list" where
  "FlushAcknowledgements pathName channelID homeDir = []"

definition FlushPackets :: "string \<Rightarrow> string \<Rightarrow> string \<Rightarrow> string list" where
  "FlushPackets pathName channelID homeDir = []"

definition GeneratePath :: "string \<Rightarrow> string \<Rightarrow> string \<Rightarrow> string \<Rightarrow> string list" where
  "GeneratePath srcChainID dstChainID pathName homeDir =
     [''hermes'', ''paths'', ''new'', srcChainID, dstChainID, pathName,
      ''-c'', filepath_Join [homeDir, ''config.toml''],
      ''-j'']"

definition GetChannels :: "string \<Rightarrow> string \<Rightarrow> string list" where
  "GetChannels chainID homeDir =
     [''hermes'', ''q'', ''channels'', chainID,
      ''-c'', filepath_Join [homeDir, ''config.toml''],
      ''-j'']"

definition GetConnections :: "string \<Rightarrow> string \<Rightarrow> string list" where
  "GetConnections chainID homeDir =
     [''hermes'', ''q'', ''connections'', chainID,
      ''-c'', filepath_Join [homeDir, ''config.toml''],
      ''-j'']"

definition LinkPath :: "string \<Rightarrow> string \<Rightarrow> 'opts \<Rightarrow> string list" where
  "LinkPath pathName homeDir opts =
     [''hermes'', ''tx'', ''link'', pathName,
      ''-c'', filepath_Join [homeDir, ''config.toml''],
      ''-j'']"

definition RestoreKey :: "string \<Rightarrow> string \<Rightarrow> string \<Rightarrow> string \<Rightarrow> string list" where
  "RestoreKey chainID keyName mnemonic homeDir =
     [''hermes'', ''keys'', ''restore'', chainID, ''-n'', keyName, ''-m'', mnemonic,
      ''-c'', filepath_Join [homeDir, ''config.toml''],
      ''-j'']"

definition StartRelayer :: "string \<Rightarrow> string \<Rightarrow> string list" where
  "StartRelayer pathName homeDir =
     [''hermes'', ''start'',
      ''-c'', filepath_Join [homeDir, ''config.toml''],
      ''-j'']"

definition UpdateClients_body :: "lookup \<Rightarrow> lookup \<Rightarrow> string \<Rightarrow> string \<Rightarrow> string list" where
  "UpdateClients_body getDestinationChainID getDestinationClientID pathName homeDir =
     (case getDestinationChainID pathName homeDir of (dstChainID, err) \<Rightarrow>
        if err \<noteq> None then []
        else case getDestinationClientID pathName homeDir of (dstClientID, err) \<Rightarrow>
          if err \<noteq> None then []
          else [''hermes'', ''update'', ''client'', dstChainID, dstClientID,
                ''-c'', filepath_Join [homeDir, ''config.toml''],
                ''-j''])"

definition UpdateClients :: "string \<Rightarrow> string \<Rightarrow> string list" where
  "UpdateClients =
     UpdateClients_body getDestinationChainIDFromPath getDestinationClientIDFromPath"

subsection \<open>Output parsers\<close>

text \<open>
  \<open>strings.Split(s, sep)\<close> for a separator of one byte, as the parsers call it with
  \<open>"\n"\<close>: the pieces between the occurrences of the separator, in order, one more
  piece than there are separators (so the empty string gives one empty piece). The
  second argument is the piece being read.
\<close>

definition newline :: char where
  "newline = CHR 0x0A"

fun split_from :: "char \<Rightarrow> string \<Rightarrow> string \<Rightarrow> string list" where
  "split_from sep cur [] = [cur]"
| "split_from sep cur (c # cs) =
     (if c = sep then cur # split_from sep [] cs else split_from sep (cur @ [c]) cs)"

definition strings_Split :: "string \<Rightarrow> char \<Rightarrow> string list" where
  "strings_Split s sep = split_from sep [] s"

text \<open>
  The parsers call two more library functions: \<open>strings.TrimSpace\<close> (Unicode-aware
  trimming of white space) and \<open>json.Unmarshal\<close> into \<open>ibc.ChannelOutput\<close> or
  \<open>ibc.ConnectionOutput\<close>, two types declared outside the source files. Both are
  parameters of the model: \<open>trimSpace\<close> is any function on strings, and \<open>unmarshal\<close>
  maps a line to \<open>Inl err\<close> when decoding fails and to \<open>Inr v\<close> when it yields the
  record \<open>v\<close>. The decoded variable is declared inside the loop body, so every
  iteration starts from a fresh record and a failed decoding leaves nothing behind.

  The loop of \<open>ParseGetChannelsOutput\<close> over the lines, with the slice \<open>channels\<close>
  built so far; both \<open>continue\<close> statements go on with the unchanged slice.
\<close>

fun channels_loop ::
  "(string \<Rightarrow> error + 'a) \<Rightarrow> (string \<Rightarrow> string) \<Rightarrow> string list \<Rightarrow> 'a list \<Rightarrow> 'a list" where
  "channels_loop unmarshal trimSpace [] channels = channels"
| "channels_loop unmarshal trimSpace (channel # rest) channels =
     (if trimSpace channel = '''' then channels_loop unmarshal trimSpace rest channels
      else case unmarshal channel of
             Inl err \<Rightarrow> channels_loop unmarshal trimSpace rest channels
           | Inr channelOutput \<Rightarrow>
               channels_loop unmarshal trimSpace rest (channels @ [channelOutput]))"

definition ParseGetChannelsOutput ::
  "(string \<Rightarrow> error + 'a) \<Rightarrow> (string \<Rightarrow> string) \<Rightarrow> string \<Rightarrow> string \<Rightarrow> 'a list \<times> error option" where
  "ParseGetChannelsOutput unmarshal trimSpace stdout stderr =
     (let channelSplit = strings_Split stdout newline;
          channels = channels_loop unmarshal trimSpace channelSplit []
      in (channels, None))"

text \<open>The same loop in \<open>ParseGetConnectionsOutput\<close> and \<open>ParseRestoreKeyOutput\<close>.\<close>

fun connections_loop ::
  "(string \<Rightarrow> error + 'a) \<Rightarrow> (string \<Rightarrow> string) \<Rightarrow> string list \<Rightarrow> 'a list \<Rightarrow> 'a list" where
  "connections_loop unmarshal trimSpace [] connections = connections"
| "connections_loop unmarshal trimSpace (connection # rest) connections =
     (if trimSpace connection = '''' then connections_loop unmarshal trimSpace rest connections
      else case unmarshal connection of
             Inl err \<Rightarrow> connections_loop unmarshal trimSpace rest connections
           | Inr connectionOutput \<Rightarrow>
               connections_loop unmarshal trimSpace rest (connections @ [connectionOutput]))"

definition ParseGetConnectionsOutput ::
  "(string \<Rightarrow> error + 'a) \<Rightarrow> (string \<Rightarrow> string) \<Rightarrow> string \<Rightarrow> string \<Rightarrow> 'a list \<times> error option" where
  "ParseGetConnectionsOutput unmarshal trimSpace stdout stderr =
     (let connections = connections_loop unmarshal trimSpace (strings_Split stdout newline) []
      in (connections, None))"

definition ParseRestoreKeyOutput ::
  "(string \<Rightarrow> error + 'a) \<Rightarrow> (string \<Rightarrow> string) \<Rightarrow> string \<Rightarrow> string \<Rightarrow> string" where
  "ParseRestoreKeyOutput unmarshal trimSpace stdout stderr =
     (let connections = connections_loop unmarshal trimSpace (strings_Split stdout newline) []
      in '''')"

text \<open>
  What the parsers are specified to return: of the lines that are not blank, the records
  of those that decode, in the order of the lines.
\<close>

definition decoded_records ::
  "(string \<Rightarrow> error + 'a) \<Rightarrow> (string \<Rightarrow> string) \<Rightarrow> string list \<Rightarrow> 'a list" where
  "decoded_records unmarshal trimSpace lines =
     List.map_filter (\<lambda>l. case unmarshal l of Inl err \<Rightarrow> None | Inr v \<Rightarrow> Some v)
       (filter (\<lambda>l. trimSpace l \<noteq> '''') lines)"

text \<open>
  Two instances of the parameters for the examples: trimming of the six ASCII white-space
  bytes, which is what \<open>strings.TrimSpace\<close> does on a string of ASCII bytes, and a
  decoder that accepts exactly the lines \<open>{"n":d}\<close> for a decimal digit \<open>d\<close>.
\<close>

definition asciiSpace :: "char \<Rightarrow> bool" where
  "asciiSpace c = (c \<in> set [CHR 0x09, CHR 0x0A, CHR 0x0B, CHR 0x0C, CHR 0x0D, CHR '' ''])"

definition trimSpace_ascii :: "string \<Rightarrow> string" where
  "trimSpace_ascii s = rev (dropWhile asciiSpace (rev (dropWhile asciiSpace s)))"

definition unmarshal_digit :: "string \<Rightarrow> error + char" where
  "unmarshal_digit l =
     (if length l = 7 \<and> take 5 l = ''{\"n\":'' \<and> l ! 5 \<in> set ''0123456789'' \<and> l ! 6 = CHR ''}''
      then Inr (l ! 5) else Inl (Error ''invalid character''))"

subsection \<open>The chain configuration value\<close>

text \<open>
  Of \<open>ibc.ChainConfig\<close> (declared outside the source files) the conversion reads five
  fields. \<open>GasAdjustment\<close> is a \<open>float64\<close> that is only copied, so its type is a
  parameter. \<open>keyring.BackendTest\<close> is the constant \<open>"test"\<close> of the Cosmos SDK.
\<close>

record 'f ChainConfig =
  Type :: string
  ChainID :: string
  Bech32Prefix :: string
  GasAdjustment :: 'f
  GasPrices :: string

record 'f HermesRelayerChainConfigValue =
  v_AccountPrefix :: string
  v_ChainID :: string
  v_Debug :: bool
  v_GRPCAddr :: string
  v_GasAdjustment :: 'f
  v_GasPrices :: string
  v_Key :: string
  v_KeyringBackend :: string
  v_OutputFormat :: string
  v_RPCAddr :: string
  v_SignMode :: string
  v_Timeout :: string

record 'f HermesRelayerChainConfig =
  c_Type :: string
  c_Value :: "'f HermesRelayerChainConfigValue"

definition keyring_BackendTest :: string where
  "keyring_BackendTest = ''test''"

definition ChainConfigToHermesRelayerChainConfig ::
  "'f ChainConfig \<Rightarrow> string \<Rightarrow> string \<Rightarrow> string \<Rightarrow> 'f HermesRelayerChainConfig" where
  "ChainConfigToHermesRelayerChainConfig chainConfig keyName rpcAddr gprcAddr =
     \<lparr>c_Type = Type chainConfig,
      c_Value = \<lparr>v_AccountPrefix = Bech32Prefix chainConfig,
                 v_ChainID = ChainID chainConfig,
                 v_Debug = True,
                 v_GRPCAddr = gprcAddr,
                 v_GasAdjustment = GasAdjustment chainConfig,
                 v_GasPrices = GasPrices chainConfig,
                 v_Key = keyName,
                 v_KeyringBackend = keyring_BackendTest,
                 v_OutputFormat = ''json'',
                 v_RPCAddr = rpcAddr,
                 v_SignMode = ''direct'',
                 v_Timeout = ''10s''\<rparr>\<rparr>"

section \<open>The Docker test fixture (package dockerutil)\<close>

subsection \<open>The Docker client\<close>

text \<open>
  \<open>dockerCleanup\<close> reads two fields of a listed container (\<open>docker.APIContainers\<close>)
  and of a listed network (\<open>docker.Network\<close>): \<open>ID\<close> and \<open>Labels\<close>. One record
  stands for both. \<open>Labels\<close> is a Go map; Go leaves the order in which a \<open>range\<close>
  loop visits a map unspecified, so the labels are the list of the map's entries in the
  order the loop visits them, whatever it is.
\<close>

type_synonym labels = "(string \<times> string) list"

record resource =
  ID :: string
  Labels :: labels

record ListContainersOptions =
  opt_All :: bool

record RemoveContainerOptions =
  opt_ID :: string
  opt_Force :: bool

text \<open>A \<open>context.Context\<close> as far as the routine builds one; durations are nanoseconds.\<close>

datatype Context = Background | WithTimeout Context int

definition time_Second :: int where
  "time_Second = 1000000000"

text \<open>
  The methods of \<open>pool.Client\<close> that the routine calls. The Docker engine is outside
  the program, so the client is a parameter: each method takes the state \<open>'s\<close> of the
  world and returns its Go results together with the new state. Nothing is assumed about
  what a method returns or how it changes the state.
\<close>

record 's Client =
  ListContainers :: "ListContainersOptions \<Rightarrow> 's \<Rightarrow> (resource list \<times> error option) \<times> 's"
  StopContainer :: "string \<Rightarrow> nat \<Rightarrow> 's \<Rightarrow> error option \<times> 's"
  WaitContainerWithContext :: "string \<Rightarrow> Context \<Rightarrow> 's \<Rightarrow> (int \<times> error option) \<times> 's"
  RemoveContainer :: "RemoveContainerOptions \<Rightarrow> 's \<Rightarrow> error option \<times> 's"
  ListNetworks :: "'s \<Rightarrow> (resource list \<times> error option) \<times> 's"
  RemoveNetwork :: "string \<Rightarrow> 's \<Rightarrow> error option \<times> 's"

subsection \<open>\<open>dockerCleanup\<close>\<close>

definition CleanupLabel :: string where
  "CleanupLabel = ''ibctest''"

text \<open>
  The inner loop over the labels of the container \<open>c\<close>. On the first entry that matches
  it stops, waits for and removes the container, discarding every result, and breaks.
  \<open>cancelWait()\<close> releases the context and calls nothing on the client.
\<close>

fun container_labels_loop :: "'s Client \<Rightarrow> string \<Rightarrow> resource \<Rightarrow> labels \<Rightarrow> 's \<Rightarrow> 's" where
  "container_labels_loop client testName c [] s = s"
| "container_labels_loop client testName c ((k, v) # kvs) s =
     (if k = CleanupLabel \<and> v = testName
      then let s1 = snd (StopContainer client (ID c) 10 s);
               ctxWait = WithTimeout Background (time_Second * 5);
               s2 = snd (WaitContainerWithContext client (ID c) ctxWait s1);
               s3 = snd (RemoveContainer client \<lparr>opt_ID = ID c, opt_Force = True\<rparr> s2)
           in s3
      else container_labels_loop client testName c kvs s)"

fun containers_loop :: "'s Client \<Rightarrow> string \<Rightarrow> resource list \<Rightarrow> 's \<Rightarrow> 's" where
  "containers_loop client testName [] s = s"
| "containers_loop client testName (c # cont) s =
     containers_loop client testName cont (container_labels_loop client testName c (Labels c) s)"

fun network_labels_loop :: "'s Client \<Rightarrow> string \<Rightarrow> resource \<Rightarrow> labels \<Rightarrow> 's \<Rightarrow> 's" where
  "network_labels_loop client testName n [] s = s"
| "network_labels_loop client testName n ((k, v) # kvs) s =
     (if k = CleanupLabel \<and> v = testName
      then snd (RemoveNetwork client (ID n) s)
      else network_labels_loop client testName n kvs s)"

fun networks_loop :: "'s Client \<Rightarrow> string \<Rightarrow> resource list \<Rightarrow> 's \<Rightarrow> 's" where
  "networks_loop client testName [] s = s"
| "networks_loop client testName (n # nets) s =
     networks_loop client testName nets (network_labels_loop client testName n (Labels n) s)"

text \<open>
  The closure that \<open>dockerCleanup testName pool\<close> returns, run in the state \<open>s\<close>. Both
  listing errors are discarded and the returned slice is used as it is.
\<close>

definition dockerCleanup :: "string \<Rightarrow> 's Client \<Rightarrow> 's \<Rightarrow> 's" where
  "dockerCleanup testName client s =
     (let (r1, s1) = ListContainers client \<lparr>opt_All = True\<rparr> s;
          cont = fst r1;
          s2 = containers_loop client testName cont s1;
          (r2, s3) = ListNetworks client s2;
          nets = fst r2
      in networks_loop client testName nets s3)"


text \<open>
  The three calls that the routine makes for a matching container, composed; used to
  state what the inner loop does.
\<close>

definition container_steps :: "'s Client \<Rightarrow> resource \<Rightarrow> 's \<Rightarrow> 's" where
  "container_steps client c s =
     snd (RemoveContainer client \<lparr>opt_ID = ID c, opt_Force = True\<rparr>
       (snd (WaitContainerWithContext client (ID c) (WithTimeout Background 5000000000)
         (snd (StopContainer client (ID c) 10 s)))))"

subsection \<open>Observing the calls\<close>

text \<open>
  To state which calls the routine makes, a client is wrapped into one that appends every
  call it receives, with its arguments, to a log kept beside the state, and otherwise
  behaves as the wrapped client.
\<close>

datatype docker_call =
    CallListContainers ListContainersOptions
  | CallStopContainer string nat
  | CallWaitContainerWithContext string Context
  | CallRemoveContainer RemoveContainerOptions
  | CallListNetworks
  | CallRemoveNetwork string

definition recording :: "'s Client \<Rightarrow> (docker_call list \<times> 's) Client" where
  "recording client =
     \<lparr>ListContainers = (\<lambda>opts (log, s).
        (fst (ListContainers client opts s),
         (log @ [CallListContainers opts], snd (ListContainers client opts s)))),
      StopContainer = (\<lambda>i timeout (log, s).
        (fst (StopContainer client i timeout s),
         (log @ [CallStopContainer i timeout], snd (StopContainer client i timeout s)))),
      WaitContainerWithContext = (\<lambda>i ctx (log, s).
        (fst (WaitContainerWithContext client i ctx s),
         (log @ [CallWaitContainerWithContext i ctx], snd (WaitContainerWithContext client i ctx s)))),
      RemoveContainer = (\<lambda>opts (log, s).
        (fst (RemoveContainer client opts s),
         (log @ [CallRemoveContainer opts], snd (RemoveContainer client opts s)))),
      ListNetworks = (\<lambda>(log, s).
        (fst (ListNetworks client s),
         (log @ [CallListNetworks], snd (ListNetworks client s)))),
      RemoveNetwork = (\<lambda>i (log, s).
        (fst (RemoveNetwork client i s),
         (log @ [CallRemoveNetwork i], snd (RemoveNetwork client i s))))\<rparr>"

text \<open>The client that reports no error and otherwise behaves as the given one.\<close>

definition silence :: "'s Client \<Rightarrow> 's Client" where
  "silence client =
     \<lparr>ListContainers = (\<lambda>opts s.
        ((fst (fst (ListContainers client opts s)), None), snd (ListContainers client opts s))),
      StopContainer = (\<lambda>i timeout s. (None, snd (StopContainer client i timeout s))),
      WaitContainerWithContext = (\<lambda>i ctx s.
        ((fst (fst (WaitContainerWithContext client i ctx s)), None),
         snd (WaitContainerWithContext client i ctx s))),
      RemoveContainer = (\<lambda>opts s. (None, snd (RemoveContainer client opts s))),
      ListNetworks = (\<lambda>s. ((fst (fst (ListNetworks client s)), None), snd (ListNetworks client s))),
      RemoveNetwork = (\<lambda>i s. (None, snd (RemoveNetwork client i s)))\<rparr>"

text \<open>
  The words of the specification: a resource matches when its labels map the key
  \<open>ibctest\<close> to the test name; a matching container is stopped with a grace period of
  10 seconds, waited for under a timeout of 5 seconds, then removed with force; a matching
  network is removed.
\<close>

definition has_cleanup_label :: "string \<Rightarrow> resource \<Rightarrow> bool" where
  "has_cleanup_label testName r = ((''ibctest'', testName) \<in> set (Labels r))"

definition container_calls :: "resource \<Rightarrow> docker_call list" where
  "container_calls c =
     [CallStopContainer (ID c) 10,
      CallWaitContainerWithContext (ID c) (WithTimeout Background 5000000000),
      CallRemoveContainer \<lparr>opt_ID = ID c, opt_Force = True\<rparr>]"

definition network_calls :: "resource \<Rightarrow> docker_call list" where
  "network_calls n = [CallRemoveNetwork (ID n)]"

text \<open>The containers and the networks that the two listing calls of a run return.\<close>

definition listed_containers :: "'s Client \<Rightarrow> 's \<Rightarrow> resource list" where
  "listed_containers client s = fst (fst (ListContainers client \<lparr>opt_All = True\<rparr> s))"

definition listed_networks :: "string \<Rightarrow> 's Client \<Rightarrow> 's \<Rightarrow> resource list" where
  "listed_networks testName client s =
     fst (fst (ListNetworks client
       (containers_loop client testName (listed_containers client s)
          (snd (ListContainers client \<lparr>opt_All = True\<rparr> s)))))"

text \<open>The container, respectively the network, that a call stops, waits for or removes.\<close>

fun container_target :: "docker_call \<Rightarrow> string option" where
  "container_target (CallStopContainer i timeout) = Some i"
| "container_target (CallWaitContainerWithContext i ctx) = Some i"
| "container_target (CallRemoveContainer opts) = Some (opt_ID opts)"
| "container_target call = None"

fun network_target :: "docker_call \<Rightarrow> string option" where
  "network_target (CallRemoveNetwork i) = Some i"
| "network_target call = None"

subsection \<open>A Docker engine\<close>

text \<open>
  A model of the engine behind the client, for the claims that speak of the Docker state:
  the containers, each with its labels and whether it runs, and the networks. Identifiers
  name resources. A call fails when its target does not exist, when a container to stop
  is not running, or when a running container is removed without force; a failed call
  changes nothing.
\<close>

record engine =
  containers :: "(resource \<times> bool) list"
  networks :: "resource list"

definition no_such :: "string \<Rightarrow> error" where
  "no_such i = Error (''No such resource: '' @ i)"

definition engine_client :: "engine Client" where
  "engine_client =
     \<lparr>ListContainers = (\<lambda>opts e.
        ((map fst (filter (\<lambda>x. opt_All opts \<or> snd x) (containers e)), None), e)),
      StopContainer = (\<lambda>i timeout e.
        case find (\<lambda>x. ID (fst x) = i) (containers e) of
          None \<Rightarrow> (Some (no_such i), e)
        | Some x \<Rightarrow>
            if \<not> snd x then (Some (Error ''Container not running''), e)
            else (None, e\<lparr>containers :=
                    map (\<lambda>x. if ID (fst x) = i then (fst x, False) else x) (containers e)\<rparr>)),
      WaitContainerWithContext = (\<lambda>i ctx e.
        case find (\<lambda>x. ID (fst x) = i) (containers e) of
          None \<Rightarrow> ((0, Some (no_such i)), e)
        | Some x \<Rightarrow> ((0, None), e)),
      RemoveContainer = (\<lambda>opts e.
        case find (\<lambda>x. ID (fst x) = opt_ID opts) (containers e) of
          None \<Rightarrow> (Some (no_such (opt_ID opts)), e)
        | Some x \<Rightarrow>
            if snd x \<and> \<not> opt_Force opts then (Some (Error ''Container is running''), e)
            else (None, e\<lparr>containers :=
                    filter (\<lambda>x. ID (fst x) \<noteq> opt_ID opts) (containers e)\<rparr>)),
      ListNetworks = (\<lambda>e. ((networks e, None), e)),
      RemoveNetwork = (\<lambda>i e.
        case find (\<lambda>n. ID n = i) (networks e) of
          None \<Rightarrow> (Some (no_such i), e)
        | Some n \<Rightarrow> (None, e\<lparr>networks := filter (\<lambda>n. ID n \<noteq> i) (networks e)\<rparr>))\<rparr>"

subsection \<open>Concrete inputs for the examples\<close>

text \<open>
  An engine state with two containers and one network of the test \<open>TestA\<close>, one of
  them already stopped, and a container and a network that belong to something else.
\<close>

definition example_engine :: engine where
  "example_engine =
     \<lparr>containers =
        [(\<lparr>ID = ''c1'', Labels = [(''ibctest'', ''TestA'')]\<rparr>, True),
         (\<lparr>ID = ''c2'', Labels = [(''ibctest'', ''TestB'')]\<rparr>, True),
         (\<lparr>ID = ''c3'', Labels = [(''role'', ''chain''), (''ibctest'', ''TestA'')]\<rparr>, False)],
      networks =
        [\<lparr>ID = ''n1'', Labels = [(''ibctest'', ''TestA'')]\<rparr>,
         \<lparr>ID = ''n2'', Labels = []\<rparr>]\<rparr>"

text \<open>A lookup that fails, and one that finds an identifier.\<close>

definition failing_lookup :: lookup where
  "failing_lookup pathName homedir = ('''', Some (Error ''path not found''))"

definition found_lookup :: lookup where
  "found_lookup pathName homedir = (''ibc-0'', None)"

text \<open>An output of four lines: a record, a blank line, a malformed line, a record.\<close>

definition example_stdout :: string where
  "example_stdout =
     ''{\"n\":7}'' @ [newline] @ ''  '' @ [newline] @ ''{bad'' @ [newline] @ ''{\"n\":3}''"

section \<open>Properties of the command adapter\<close>

subsection \<open>Command builders\<close>

text \<open>
  The model of \<open>Clean\<close> and \<open>Join\<close> on cases of the library's documentation and
  test table.
\<close>

lemma Clean_examples:
  "map Clean [''abc'', ''abc/def'', ''.'', ''..'', ''../..'', ''../../abc'', ''/abc'', ''/'', '''',
      ''abc/'', ''./'', ''../'', ''../../'', ''/abc/'', ''abc//def//ghi'', ''abc//'', ''abc/./def'',
      ''/./abc/def'', ''abc/.'', ''abc/def/ghi/../jkl'', ''abc/def/../ghi/../jkl'', ''abc/def/..'',
      ''abc/def/../..'', ''/abc/def/../..'', ''abc/def/../../..'', ''/abc/def/../../..'',
      ''abc/def/../../../ghi/jkl/../../../mno'', ''/../abc'', ''abc/./../def'', ''abc//./../def'',
      ''abc/../../././../def'']
   = [''abc'', ''abc/def'', ''.'', ''..'', ''../..'', ''../../abc'', ''/abc'', ''/'', ''.'',
      ''abc'', ''.'', ''..'', ''../..'', ''/abc'', ''abc/def/ghi'', ''abc'', ''abc/def'',
      ''/abc/def'', ''abc'', ''abc/def/jkl'', ''abc/jkl'', ''abc'',
      ''.'', ''/'', ''..'', ''/'',
      ''../../mno'', ''/abc'', ''def'', ''def'',
      ''../../def'']"
  by (simp add: Clean_def Separator_def)

lemma Join_examples:
  "filepath_Join [''a'', ''b''] = ''a/b'' \<and> filepath_Join [''a'', ''''] = ''a''
   \<and> filepath_Join ['''', ''b''] = ''b'' \<and> filepath_Join [''/'', ''a''] = ''/a''
   \<and> filepath_Join [''a/'', ''b''] = ''a/b'' \<and> filepath_Join ['''', ''''] = ''''
   \<and> filepath_Join [''/home/hermes/'', ''config.toml''] = ''/home/hermes/config.toml''
   \<and> filepath_Join ['''', ''config.toml''] = ''config.toml''"
  by (simp add: Clean_def Separator_def)

text \<open>
  What the twelve builders of the documented interface return, for all arguments.
  \<open>config\<close> is the path \<open>filepath.Join(homeDir, "config.toml")\<close>, which nine of them
  pass after \<open>-c\<close>; \<open>AddKey\<close> passes
  \<open>filepath.Join(homeDir, "hermes", "config.toml")\<close> instead.
\<close>

lemma stub_lookups:
  "getSourceChainIDFromPath p h = ('''', None)"
  "getDestinationChainIDFromPath p h = ('''', None)"
  "getDestinationClientIDFromPath p h = ('''', None)"
  "getSourcePortIDFromPath p h = ('''', None)"
  by (simp_all add: getSourceChainIDFromPath_def getDestinationChainIDFromPath_def
      getDestinationClientIDFromPath_def getSourcePortIDFromPath_def)

lemma command_builders_tokens:
  "Init homeDir = [''hermes'', ''config'', ''init'', ''--home'', homeDir]"
  "AddChainConfiguration file homeDir = [''hermes'', ''chains'', ''add'', ''-f'', file, ''--home'', homeDir]"
  "config = filepath_Join [homeDir, ''config.toml''] \<Longrightarrow>
     CreateClients pathName homeDir = [''hermes'', ''create'', ''client'', '''', '''', ''-c'', config, ''-j'']
     \<and> CreateConnections pathName homeDir = [''hermes'', ''tx'', ''connection'', '''', '''', ''-c'', config, ''-j'']
     \<and> GeneratePath src dst pathName homeDir = [''hermes'', ''paths'', ''new'', src, dst, pathName, ''-c'', config, ''-j'']
     \<and> GetChannels chainID homeDir = [''hermes'', ''q'', ''channels'', chainID, ''-c'', config, ''-j'']
     \<and> GetConnections chainID homeDir = [''hermes'', ''q'', ''connections'', chainID, ''-c'', config, ''-j'']
     \<and> LinkPath pathName homeDir opts = [''hermes'', ''tx'', ''link'', pathName, ''-c'', config, ''-j'']
     \<and> RestoreKey chainID keyName mnemonic homeDir
         = [''hermes'', ''keys'', ''restore'', chainID, ''-n'', keyName, ''-m'', mnemonic, ''-c'', config, ''-j'']
     \<and> StartRelayer pathName homeDir = [''hermes'', ''start'', ''-c'', config, ''-j'']
     \<and> UpdateClients pathName homeDir = [''hermes'', ''update'', ''client'', '''', '''', ''-c'', config, ''-j'']"
  "AddKey chainID keyName homeDir
     = [''hermes'', ''keys'', ''add'', chainID, ''-n'', keyName,
        ''-c'', filepath_Join [homeDir, ''hermes'', ''config.toml''], ''-j'']"
  by (simp_all add: Init_def AddChainConfiguration_def CreateClients_def CreateConnections_def
      GeneratePath_def GetChannels_def GetConnections_def LinkPath_def RestoreKey_def
      StartRelayer_def UpdateClients_def AddKey_def CreateClients_body_def
      CreateConnections_body_def UpdateClients_body_def stub_lookups)

text \<open>
  Claim C1: every command builder produces the argument vector documented for it, with
  \<open><config>\<close> standing for one and the same configuration file path, derived from the
  home directory, in all builders. The code does not do that: for the home directory
  \<open>/home/hermes\<close>, \<open>AddKey\<close> passes \<open>/home/hermes/hermes/config.toml\<close> after \<open>-c\<close>,
  while \<open>RestoreKey\<close> (like every other builder that takes \<open>-c\<close>) passes
  \<open>/home/hermes/config.toml\<close>. The theorem evaluates both builders there.
\<close>

theorem AddKey_config_path_differs:
  "AddKey ''ibc-0'' ''relayer'' ''/home/hermes''
     = [''hermes'', ''keys'', ''add'', ''ibc-0'', ''-n'', ''relayer'',
        ''-c'', ''/home/hermes/hermes/config.toml'', ''-j'']
   \<and> RestoreKey ''ibc-0'' ''relayer'' ''abandon'' ''/home/hermes''
     = [''hermes'', ''keys'', ''restore'', ''ibc-0'', ''-n'', ''relayer'', ''-m'', ''abandon'',
        ''-c'', ''/home/hermes/config.toml'', ''-j'']
   \<and> AddKey ''ibc-0'' ''relayer'' ''/home/hermes'' ! 7
     \<noteq> RestoreKey ''ibc-0'' ''relayer'' ''abandon'' ''/home/hermes'' ! 9"
  by (simp add: AddKey_def RestoreKey_def Clean_def Separator_def)

text \<open>
  Claim C3: each operation on a path (\<open>CreateClients\<close>, \<open>CreateConnections\<close>,
  \<open>UpdateClients\<close>, \<open>ClearQueue\<close>) returns the empty sequence exactly when one of its
  two identifier lookups reports an error, and a populated command otherwise (the first
  four conjuncts, for arbitrary lookups); the lookups of the code never report an error
  (the next four); so the methods always return the populated command, with the empty
  string for each identifier looked up (the last four).
\<close>

theorem lookup_builders_never_empty:
  "(CreateClients_body gs gd pathName homeDir = [])
      = (snd (gs pathName homeDir) \<noteq> None \<or> snd (gd pathName homeDir) \<noteq> None)
   \<and> (CreateConnections_body gs gd pathName homeDir = [])
      = (snd (gs pathName homeDir) \<noteq> None \<or> snd (gd pathName homeDir) \<noteq> None)
   \<and> (UpdateClients_body gd gc pathName homeDir = [])
      = (snd (gd pathName homeDir) \<noteq> None \<or> snd (gc pathName homeDir) \<noteq> None)
   \<and> (ClearQueue_body gs gp pathName channelID homeDir = [])
      = (snd (gs pathName homeDir) \<noteq> None \<or> snd (gp pathName homeDir) \<noteq> None)
   \<and> snd (getSourceChainIDFromPath pathName homeDir) = None
   \<and> snd (getDestinationChainIDFromPath pathName homeDir) = None
   \<and> snd (getDestinationClientIDFromPath pathName homeDir) = None
   \<and> snd (getSourcePortIDFromPath pathName homeDir) = None
   \<and> CreateClients pathName homeDir
      = [''hermes'', ''create'', ''client'', '''', '''',
         ''-c'', filepath_Join [homeDir, ''config.toml''], ''-j'']
   \<and> CreateConnections pathName homeDir
      = [''hermes'', ''tx'', ''connection'', '''', '''',
         ''-c'', filepath_Join [homeDir, ''config.toml''], ''-j'']
   \<and> UpdateClients pathName homeDir
      = [''hermes'', ''update'', ''client'', '''', '''',
         ''-c'', filepath_Join [homeDir, ''config.toml''], ''-j'']
   \<and> ClearQueue pathName channelID homeDir
      = [''hermes'', ''clear'', ''packets'', '''', '''', channelID,
         ''-c'', filepath_Join [homeDir, ''config.toml''], ''-j'']"
  by (simp add: CreateClients_body_def CreateConnections_body_def UpdateClients_body_def
      ClearQueue_body_def CreateClients_def CreateConnections_def UpdateClients_def
      ClearQueue_def stub_lookups split: prod.splits)

text \<open>
  The theorem at concrete lookups: an error of either lookup gives the empty command, two
  successful lookups a populated one, and the stubbed method a command with empty
  identifiers.
\<close>

theorem lookup_builders_never_empty_witness:
  "CreateClients_body failing_lookup found_lookup ''path'' ''/home/hermes'' = []
   \<and> CreateClients_body found_lookup failing_lookup ''path'' ''/home/hermes'' = []
   \<and> CreateClients_body found_lookup found_lookup ''path'' ''/home/hermes'' \<noteq> []
   \<and> CreateClients ''path'' ''/home/hermes''
      = [''hermes'', ''create'', ''client'', '''', '''',
         ''-c'', ''/home/hermes/config.toml'', ''-j'']"
proof -
  have j: "filepath_Join [''/home/hermes'', ''config.toml''] = ''/home/hermes/config.toml''"
    by (simp add: Clean_def Separator_def)
  have a: "CreateClients_body failing_lookup found_lookup ''path'' ''/home/hermes'' = []"
    using lookup_builders_never_empty [of failing_lookup found_lookup "''path''" "''/home/hermes''"]
    by (simp add: failing_lookup_def)
  have b: "CreateClients_body found_lookup failing_lookup ''path'' ''/home/hermes'' = []"
    using lookup_builders_never_empty [of found_lookup failing_lookup "''path''" "''/home/hermes''"]
    by (simp add: failing_lookup_def)
  have c: "CreateClients_body found_lookup found_lookup ''path'' ''/home/hermes'' \<noteq> []"
    using lookup_builders_never_empty [of found_lookup found_lookup "''path''" "''/home/hermes''"]
    by (simp add: found_lookup_def)
  have d: "CreateClients ''path'' ''/home/hermes''
      = [''hermes'', ''create'', ''client'', '''', '''',
         ''-c'', ''/home/hermes/config.toml'', ''-j'']"
    using lookup_builders_never_empty [of _ _ "''path''" "''/home/hermes''"] by (simp only: j)
  show ?thesis using a b c d by simp
qed

text \<open>
  Claim C10: \<open>CreateChannel\<close>, \<open>FlushAcknowledgements\<close> and \<open>FlushPackets\<close> return
  the empty token sequence for every input.
\<close>

theorem noop_builders_empty:
  "CreateChannel pathName opts homeDir = []
   \<and> FlushAcknowledgements pathName channelID homeDir = []
   \<and> FlushPackets pathName channelID homeDir = []"
  by (simp add: CreateChannel_def FlushAcknowledgements_def FlushPackets_def)

subsection \<open>Output parsers\<close>

lemma channels_loop_eq:
  "channels_loop unmarshal trimSpace lines channels
     = channels @ decoded_records unmarshal trimSpace lines"
  by (induction lines arbitrary: channels)
     (auto simp: decoded_records_def List.map_filter_simps split: sum.splits)

lemma connections_loop_eq:
  "connections_loop unmarshal trimSpace lines connections
     = connections @ decoded_records unmarshal trimSpace lines"
  by (induction lines arbitrary: connections)
     (auto simp: decoded_records_def List.map_filter_simps split: sum.splits)

lemma split_from_append:
  "split_from sep cur (a @ sep # b) = split_from sep cur a @ split_from sep [] b"
  by (induction a arbitrary: cur) auto

lemma split_from_no_sep: "sep \<notin> set a \<Longrightarrow> split_from sep cur a = [cur @ a]"
  by (induction a arbitrary: cur) auto

lemma strings_Split_line:
  "sep \<notin> set l \<Longrightarrow>
     strings_Split (a @ sep # l @ sep # b) sep = strings_Split a sep @ l # strings_Split b sep"
  by (simp add: strings_Split_def split_from_append split_from_no_sep)

lemma decoded_records_skip:
  "trimSpace l = '''' \<or> isl (unmarshal l) \<Longrightarrow>
     decoded_records unmarshal trimSpace (xs @ l # ys)
       = decoded_records unmarshal trimSpace xs @ decoded_records unmarshal trimSpace ys"
  by (auto simp: decoded_records_def List.map_filter_def split: sum.splits)

text \<open>
  Claim C2: for every output, \<open>ParseGetChannelsOutput\<close> and
  \<open>ParseGetConnectionsOutput\<close> split it at the newlines, skip the blank lines, decode
  every other line and return exactly the records of the lines that decode, in the order
  of the lines, with a \<open>nil\<close> error. A line that does not decode is left out and does
  not stop the parsing: the records of an output with such a line between two newlines are
  the records of what precedes it followed by the records of what follows it.
\<close>

theorem parsers_return_decoded_records:
  "ParseGetChannelsOutput unmarshal trimSpace stdout stderr
     = (decoded_records unmarshal trimSpace (strings_Split stdout newline), None)
   \<and> ParseGetConnectionsOutput unmarshal' trimSpace stdout stderr
     = (decoded_records unmarshal' trimSpace (strings_Split stdout newline), None)
   \<and> (newline \<notin> set line \<and> isl (unmarshal line) \<longrightarrow>
        fst (ParseGetChannelsOutput unmarshal trimSpace
               (before @ newline # line @ newline # after) stderr)
          = fst (ParseGetChannelsOutput unmarshal trimSpace before stderr)
            @ fst (ParseGetChannelsOutput unmarshal trimSpace after stderr))
   \<and> (newline \<notin> set line \<and> isl (unmarshal' line) \<longrightarrow>
        fst (ParseGetConnectionsOutput unmarshal' trimSpace
               (before @ newline # line @ newline # after) stderr)
          = fst (ParseGetConnectionsOutput unmarshal' trimSpace before stderr)
            @ fst (ParseGetConnectionsOutput unmarshal' trimSpace after stderr))"
  by (simp add: ParseGetChannelsOutput_def ParseGetConnectionsOutput_def
      channels_loop_eq connections_loop_eq strings_Split_line decoded_records_skip)

text \<open>
  The theorem at an output of four lines, a record, a blank line, a malformed line and a
  record: both parsers return the two records in order, and no error.
\<close>

theorem parsers_return_decoded_records_witness:
  "newline \<notin> set ''{bad'' \<and> isl (unmarshal_digit ''{bad'')
   \<and> ParseGetChannelsOutput unmarshal_digit trimSpace_ascii example_stdout '''' = (''73'', None)
   \<and> ParseGetConnectionsOutput unmarshal_digit trimSpace_ascii example_stdout '''' = (''73'', None)
   \<and> fst (ParseGetChannelsOutput unmarshal_digit trimSpace_ascii
            ((''{\"n\":7}'' @ [newline] @ ''  '') @ newline # ''{bad'' @ newline # ''{\"n\":3}'') '''')
      = fst (ParseGetChannelsOutput unmarshal_digit trimSpace_ascii
               (''{\"n\":7}'' @ [newline] @ ''  '') '''')
        @ fst (ParseGetChannelsOutput unmarshal_digit trimSpace_ascii ''{\"n\":3}'' '''')"
proof -
  have h1: "newline \<notin> set ''{bad''"
    by (simp add: newline_def)
  have h2: "isl (unmarshal_digit ''{bad'')"
    by (simp add: unmarshal_digit_def)
  have split: "strings_Split example_stdout newline = [''{\"n\":7}'', ''  '', ''{bad'', ''{\"n\":3}'']"
    by (simp add: example_stdout_def strings_Split_def newline_def)
  have dec: "decoded_records unmarshal_digit trimSpace_ascii
               [''{\"n\":7}'', ''  '', ''{bad'', ''{\"n\":3}''] = ''73''"
    by (simp add: decoded_records_def unmarshal_digit_def trimSpace_ascii_def asciiSpace_def
        List.map_filter_simps)
  note t = parsers_return_decoded_records [of unmarshal_digit trimSpace_ascii _ "''''" unmarshal_digit "''{bad''"]
  have a: "ParseGetChannelsOutput unmarshal_digit trimSpace_ascii example_stdout '''' = (''73'', None)"
    using t [of example_stdout] by (simp only: split dec)
  have b: "ParseGetConnectionsOutput unmarshal_digit trimSpace_ascii example_stdout '''' = (''73'', None)"
    using t [of example_stdout] by (simp only: split dec)
  have c: "fst (ParseGetChannelsOutput unmarshal_digit trimSpace_ascii
            ((''{\"n\":7}'' @ [newline] @ ''  '') @ newline # ''{bad'' @ newline # ''{\"n\":3}'') '''')
      = fst (ParseGetChannelsOutput unmarshal_digit trimSpace_ascii
               (''{\"n\":7}'' @ [newline] @ ''  '') '''')
        @ fst (ParseGetChannelsOutput unmarshal_digit trimSpace_ascii ''{\"n\":3}'' '''')"
    using t [of _ "''{\"n\":7}'' @ [newline] @ ''  ''" "''{\"n\":3}''"] h1 h2 by blast
  show ?thesis using h1 h2 a b c by blast
qed

text \<open>
  Claim C9: \<open>ParseRestoreKeyOutput\<close> returns the empty string for every pair of
  outputs; the records it accumulates do not reach the result.
\<close>

theorem ParseRestoreKeyOutput_empty:
  "ParseRestoreKeyOutput unmarshal trimSpace stdout stderr = ''''"
  by (simp add: ParseRestoreKeyOutput_def)

subsection \<open>The chain configuration value\<close>

text \<open>
  The fields of the value that \<open>ConfigContent\<close> hands to \<open>json.Marshal\<close>: seven mirror
  the inputs, five are constants.
\<close>

lemma ChainConfigToHermesRelayerChainConfig_fields:
  "ChainConfigToHermesRelayerChainConfig cfg keyName rpcAddr grpcAddr =
     \<lparr>c_Type = Type cfg,
      c_Value = \<lparr>v_AccountPrefix = Bech32Prefix cfg, v_ChainID = ChainID cfg, v_Debug = True,
                 v_GRPCAddr = grpcAddr, v_GasAdjustment = GasAdjustment cfg,
                 v_GasPrices = GasPrices cfg, v_Key = keyName, v_KeyringBackend = ''test'',
                 v_OutputFormat = ''json'', v_RPCAddr = rpcAddr, v_SignMode = ''direct'',
                 v_Timeout = ''10s''\<rparr>\<rparr>"
  by (simp add: ChainConfigToHermesRelayerChainConfig_def keyring_BackendTest_def)

section \<open>Properties of the Docker cleanup\<close>

subsection \<open>The calls of a run, for every client\<close>

lemma container_labels_loop_eq:
  "container_labels_loop client testName c kvs s =
     (if (''ibctest'', testName) \<in> set kvs then container_steps client c s else s)"
  by (induction client testName c kvs s rule: container_labels_loop.induct)
     (simp_all add: CleanupLabel_def container_steps_def time_Second_def)

lemma network_labels_loop_eq:
  "network_labels_loop client testName n kvs s =
     (if (''ibctest'', testName) \<in> set kvs then snd (RemoveNetwork client (ID n) s) else s)"
  by (induction client testName n kvs s rule: network_labels_loop.induct)
     (simp_all add: CleanupLabel_def)

lemma containers_loop_recording:
  "containers_loop (recording client) testName cont (log, s) =
     (log @ concat (map container_calls (filter (has_cleanup_label testName) cont)),
      containers_loop client testName cont s)"
  by (induction cont arbitrary: log s)
     (simp_all add: container_labels_loop_eq has_cleanup_label_def container_steps_def
        recording_def container_calls_def)

lemma networks_loop_recording:
  "networks_loop (recording client) testName nets (log, s) =
     (log @ concat (map network_calls (filter (has_cleanup_label testName) nets)),
      networks_loop client testName nets s)"
  by (induction nets arbitrary: log s)
     (simp_all add: network_labels_loop_eq has_cleanup_label_def
        recording_def network_calls_def)

lemma recording_simps:
  "ListContainers (recording client) opts (log, s) =
     (fst (ListContainers client opts s),
      (log @ [CallListContainers opts], snd (ListContainers client opts s)))"
  "ListNetworks (recording client) (log, s) =
     (fst (ListNetworks client s), (log @ [CallListNetworks], snd (ListNetworks client s)))"
  by (simp_all add: recording_def)

lemma dockerCleanup_recording:
  "dockerCleanup testName (recording client) (log, s) =
     (log @ CallListContainers \<lparr>opt_All = True\<rparr>
        # concat (map container_calls
            (filter (has_cleanup_label testName) (listed_containers client s)))
        @ CallListNetworks
        # concat (map network_calls
            (filter (has_cleanup_label testName) (listed_networks testName client s))),
      dockerCleanup testName client s)"
  by (simp add: dockerCleanup_def recording_simps split_def Let_def
      containers_loop_recording networks_loop_recording listed_containers_def
      listed_networks_def)

text \<open>
  Claim C6: whatever the client answers, a run lists the containers, then, for every
  listed container whose labels map \<open>ibctest\<close> to the test name and in the order of the
  listing, stops it with a grace period of 10 seconds, waits for it under a context that
  times out after 5 seconds and removes it with force; then it lists the networks and
  removes every listed network with that label, with no stop or wait. These are all the
  calls of the run.
\<close>

theorem dockerCleanup_calls:
  "fst (dockerCleanup testName (recording client) ([], s)) =
     CallListContainers \<lparr>opt_All = True\<rparr>
       # concat (map container_calls
           (filter (has_cleanup_label testName) (listed_containers client s)))
       @ CallListNetworks
       # concat (map network_calls
           (filter (has_cleanup_label testName) (listed_networks testName client s)))"
  by (simp add: dockerCleanup_recording)

subsection \<open>Failures are swallowed\<close>

lemma distinct_container_calls:
  "distinct (map ID cs) \<Longrightarrow> distinct (concat (map container_calls cs))"
  by (induction cs) (auto simp: container_calls_def)

lemma distinct_network_calls:
  "distinct (map ID ns) \<Longrightarrow> distinct (concat (map network_calls ns))"
  by (induction ns) (auto simp: network_calls_def)

lemma silence_containers_loop:
  "containers_loop (silence client) testName cont s = containers_loop client testName cont s"
  by (induction cont arbitrary: s)
     (simp_all add: container_labels_loop_eq container_steps_def silence_def)

lemma silence_networks_loop:
  "networks_loop (silence client) testName nets s = networks_loop client testName nets s"
  by (induction nets arbitrary: s) (simp_all add: network_labels_loop_eq silence_def)

lemma silence_lists:
  "fst (fst (ListContainers (silence client) opts s)) = fst (fst (ListContainers client opts s))"
  "snd (ListContainers (silence client) opts s) = snd (ListContainers client opts s)"
  "fst (fst (ListNetworks (silence client) s)) = fst (fst (ListNetworks client s))"
  "snd (ListNetworks (silence client) s) = snd (ListNetworks client s)"
  by (simp_all add: silence_def)

lemma dockerCleanup_silence:
  "dockerCleanup testName (silence client) s = dockerCleanup testName client s"
  by (simp add: dockerCleanup_def split_def Let_def silence_lists
      silence_containers_loop silence_networks_loop)

lemma listed_silence:
  "listed_containers (silence client) s = listed_containers client s"
  "listed_networks testName (silence client) s = listed_networks testName client s"
  by (simp_all add: listed_containers_def listed_networks_def silence_lists
      silence_containers_loop)

lemma container_calls_not_list:
  "CallListContainers opts \<notin> set (concat (map container_calls cs))"
  "CallListNetworks \<notin> set (concat (map container_calls cs))"
  "CallRemoveNetwork i \<notin> set (concat (map container_calls cs))"
  by (induction cs) (auto simp: container_calls_def)

lemma network_calls_not_list:
  "CallListContainers opts \<notin> set (concat (map network_calls ns))"
  "CallListNetworks \<notin> set (concat (map network_calls ns))"
  by (induction ns) (auto simp: network_calls_def)

lemma container_network_calls_disjoint:
  "set (concat (map container_calls cs)) \<inter> set (concat (map network_calls ns)) = {}"
  by (induction ns) (auto simp: network_calls_def container_calls_not_list simp del: set_concat)

text \<open>
  Claim C8: the routine returns for every client, whatever its calls answer (the model is
  a total function with no error in its result); the errors that the calls report have no
  influence on it: against the client that reports none it makes the same calls and ends
  in the same state. It makes one listing call for the containers, one for the networks,
  three calls for each matching container listed and one for each matching network
  listed; when the matching resources listed have different identifiers, no call is made
  twice.
\<close>

theorem dockerCleanup_swallows_failures:
  "dockerCleanup testName (recording (silence client)) ([], s)
     = dockerCleanup testName (recording client) ([], s)
   \<and> length (fst (dockerCleanup testName (recording client) ([], s)))
     = 2 + 3 * length (filter (has_cleanup_label testName) (listed_containers client s))
         + length (filter (has_cleanup_label testName) (listed_networks testName client s))
   \<and> (distinct (map ID (filter (has_cleanup_label testName) (listed_containers client s)))
      \<and> distinct (map ID (filter (has_cleanup_label testName)
                              (listed_networks testName client s)))
      \<longrightarrow> distinct (fst (dockerCleanup testName (recording client) ([], s))))"
proof -
  have a: "dockerCleanup testName (recording (silence client)) ([], s)
     = dockerCleanup testName (recording client) ([], s)"
    by (simp add: dockerCleanup_recording dockerCleanup_silence listed_silence)
  have len_c: "length (concat (map container_calls cs)) = 3 * length cs" for cs
    by (induction cs) (simp_all add: container_calls_def)
  have len_n: "length (concat (map network_calls ns)) = length ns" for ns
    by (induction ns) (simp_all add: network_calls_def)
  have b: "length (fst (dockerCleanup testName (recording client) ([], s)))
     = 2 + 3 * length (filter (has_cleanup_label testName) (listed_containers client s))
         + length (filter (has_cleanup_label testName) (listed_networks testName client s))"
    by (simp add: dockerCleanup_recording len_c len_n)
  have c: "distinct (fst (dockerCleanup testName (recording client) ([], s)))"
    if "distinct (map ID (filter (has_cleanup_label testName) (listed_containers client s)))"
      and "distinct (map ID (filter (has_cleanup_label testName)
                              (listed_networks testName client s)))"
    using that container_network_calls_disjoint
    by (simp add: dockerCleanup_recording distinct_container_calls distinct_network_calls
        container_calls_not_list network_calls_not_list del: set_concat)
  show ?thesis using a b c by blast
qed

subsection \<open>The Docker state\<close>

lemma find_None_filter: "find P xs = None \<Longrightarrow> filter (\<lambda>x. \<not> P x) xs = xs"
  by (induction xs) (auto split: if_splits)

lemma filter_stop_map:
  "filter (\<lambda>x. ID (fst x) \<noteq> i) (map (\<lambda>x. if ID (fst x) = i then (fst x, False) else x) xs)
     = filter (\<lambda>x. ID (fst x) \<noteq> i) xs"
  by (induction xs) auto

lemma find_stop_map_None:
  "find (\<lambda>x. ID (fst x) = i) (map (\<lambda>x. if ID (fst x) = i then (fst x, False) else x) xs) = None
     \<Longrightarrow> find (\<lambda>x. ID (fst x) = i) xs = None"
  by (induction xs) (auto split: if_splits)

lemma engine_container_steps:
  "container_steps engine_client c e
     = e\<lparr>containers := filter (\<lambda>x. ID (fst x) \<noteq> ID c) (containers e)\<rparr>"
  by (auto simp: container_steps_def engine_client_def filter_stop_map
      find_None_filter dest: find_stop_map_None split: option.splits)

lemma engine_remove_network:
  "snd (RemoveNetwork engine_client i e) = e\<lparr>networks := filter (\<lambda>n. ID n \<noteq> i) (networks e)\<rparr>"
  by (auto simp: engine_client_def find_None_filter split: option.splits)

lemma engine_containers_loop:
  "containers_loop engine_client testName cont e
     = e\<lparr>containers := filter (\<lambda>x. ID (fst x) \<notin> ID ` {c \<in> set cont. has_cleanup_label testName c})
                          (containers e)\<rparr>"
proof (induction cont arbitrary: e)
  case Nil
  show ?case by simp
next
  case (Cons c cont)
  show ?case
    by (auto simp: Cons.IH container_labels_loop_eq engine_container_steps has_cleanup_label_def
        intro!: arg_cong2[where f="\<lambda>f xs. e\<lparr>containers := filter f xs\<rparr>"] filter_cong)
qed

lemma engine_networks_loop:
  "networks_loop engine_client testName nets e
     = e\<lparr>networks := filter (\<lambda>n. ID n \<notin> ID ` {n \<in> set nets. has_cleanup_label testName n})
                          (networks e)\<rparr>"
proof (induction nets arbitrary: e)
  case Nil
  show ?case by simp
next
  case (Cons n nets)
  show ?case
    by (auto simp: Cons.IH network_labels_loop_eq engine_remove_network has_cleanup_label_def
        intro!: arg_cong2[where f="\<lambda>f xs. e\<lparr>networks := filter f xs\<rparr>"] filter_cong)
qed

lemma engine_lists:
  "ListContainers engine_client \<lparr>opt_All = True\<rparr> e = ((map fst (containers e), None), e)"
  "ListNetworks engine_client e = ((networks e, None), e)"
  by (simp_all add: engine_client_def)

lemma engine_dockerCleanup:
  "dockerCleanup testName engine_client e =
     e\<lparr>containers :=
         filter (\<lambda>x. ID (fst x) \<notin> ID ` {c \<in> fst ` set (containers e). has_cleanup_label testName c})
           (containers e),
       networks :=
         filter (\<lambda>n. ID n \<notin> ID ` {n \<in> set (networks e). has_cleanup_label testName n})
           (networks e)\<rparr>"
  by (simp add: dockerCleanup_def engine_lists engine_containers_loop engine_networks_loop)

lemma engine_listed:
  "listed_containers engine_client e = map fst (containers e)"
  "listed_networks testName engine_client e = networks e"
  by (simp_all add: listed_containers_def listed_networks_def engine_lists engine_containers_loop)

text \<open>
  The theorem at the example state, where stopping the container \<open>c3\<close> fails because
  it is not running: the run still makes its nine calls, each once.
\<close>

theorem dockerCleanup_swallows_failures_witness:
  "fst (StopContainer engine_client ''c3'' 10 example_engine) \<noteq> None
   \<and> distinct (map ID (filter (has_cleanup_label ''TestA'')
        (listed_containers engine_client example_engine)))
   \<and> distinct (map ID (filter (has_cleanup_label ''TestA'')
        (listed_networks ''TestA'' engine_client example_engine)))
   \<and> distinct (fst (dockerCleanup ''TestA'' (recording engine_client) ([], example_engine)))
   \<and> length (fst (dockerCleanup ''TestA'' (recording engine_client) ([], example_engine))) = 9
   \<and> dockerCleanup ''TestA'' (recording (silence engine_client)) ([], example_engine)
     = dockerCleanup ''TestA'' (recording engine_client) ([], example_engine)"
proof -
  have e: "fst (StopContainer engine_client ''c3'' 10 example_engine) \<noteq> None"
    by (simp add: engine_client_def example_engine_def)
  have h1: "distinct (map ID (filter (has_cleanup_label ''TestA'')
        (listed_containers engine_client example_engine)))"
    by (simp add: engine_listed example_engine_def has_cleanup_label_def)
  have h2: "distinct (map ID (filter (has_cleanup_label ''TestA'')
        (listed_networks ''TestA'' engine_client example_engine)))"
    by (simp add: engine_listed example_engine_def has_cleanup_label_def)
  have n: "length (filter (has_cleanup_label ''TestA'')
        (listed_containers engine_client example_engine)) = 2"
      "length (filter (has_cleanup_label ''TestA'')
        (listed_networks ''TestA'' engine_client example_engine)) = 1"
    by (simp_all add: engine_listed example_engine_def has_cleanup_label_def)
  note t = dockerCleanup_swallows_failures [of "''TestA''" engine_client example_engine]
  have d: "distinct (fst (dockerCleanup ''TestA'' (recording engine_client) ([], example_engine)))"
    using t h1 h2 by blast
  have l: "length (fst (dockerCleanup ''TestA'' (recording engine_client) ([], example_engine))) = 9"
    using t by (simp add: n)
  show ?thesis using e h1 h2 d l t by blast
qed

text \<open>
  For every client: when the listings of a run show no resource with the label of the
  test, the run makes the two listing calls and nothing else.
\<close>

lemma dockerCleanup_nothing_to_remove:
  assumes "filter (has_cleanup_label testName) (listed_containers client s) = []"
    and "filter (has_cleanup_label testName) (listed_networks testName client s) = []"
  shows "dockerCleanup testName (recording client) ([], s) =
     ([CallListContainers \<lparr>opt_All = True\<rparr>, CallListNetworks],
      snd (ListNetworks client (snd (ListContainers client \<lparr>opt_All = True\<rparr> s))))"
proof -
  have no_c: "containers_loop client testName cs s' = s'"
    if "filter (has_cleanup_label testName) cs = []" for cs s'
    using that
    by (induction cs arbitrary: s')
       (simp_all add: container_labels_loop_eq has_cleanup_label_def split: if_splits)
  have no_n: "networks_loop client testName ns s' = s'"
    if "filter (has_cleanup_label testName) ns = []" for ns s'
    using that
    by (induction ns arbitrary: s')
       (simp_all add: network_labels_loop_eq has_cleanup_label_def split: if_splits)
  have "dockerCleanup testName client s
      = snd (ListNetworks client (snd (ListContainers client \<lparr>opt_All = True\<rparr> s)))"
    using assms
    by (simp add: dockerCleanup_def split_def Let_def listed_containers_def
        listed_networks_def no_c no_n)
  then show ?thesis
    using assms by (simp add: dockerCleanup_recording)
qed

text \<open>
  Claim C5: for every state of the engine and every test name, a second run of the
  cleanup changes nothing: the first run leaves no container and no network with the
  label of the test, the second run makes the two listing calls only, and its final state
  is the state the first run produced.
\<close>

theorem dockerCleanup_idempotent:
  "dockerCleanup testName engine_client (dockerCleanup testName engine_client e)
     = dockerCleanup testName engine_client e
   \<and> filter (\<lambda>x. has_cleanup_label testName (fst x))
        (containers (dockerCleanup testName engine_client e)) = []
   \<and> filter (has_cleanup_label testName) (networks (dockerCleanup testName engine_client e)) = []
   \<and> fst (dockerCleanup testName (recording engine_client)
        ([], dockerCleanup testName engine_client e))
      = [CallListContainers \<lparr>opt_All = True\<rparr>, CallListNetworks]"
proof -
  let ?e1 = "dockerCleanup testName engine_client e"
  have c: "filter (\<lambda>x. has_cleanup_label testName (fst x)) (containers ?e1) = []"
    by (auto simp: engine_dockerCleanup filter_empty_conv)
  have n: "filter (has_cleanup_label testName) (networks ?e1) = []"
    by (auto simp: engine_dockerCleanup filter_empty_conv)
  have c': "{c \<in> fst ` set (containers ?e1). has_cleanup_label testName c} = {}"
    using c by (auto simp: filter_empty_conv)
  have n': "{n \<in> set (networks ?e1). has_cleanup_label testName n} = {}"
    using n by (auto simp: filter_empty_conv)
  have idem: "dockerCleanup testName engine_client ?e1 = ?e1"
    by (subst engine_dockerCleanup) (simp add: c' n')
  have c'': "filter (has_cleanup_label testName) (map fst (containers ?e1)) = []"
    using c by (simp add: filter_map comp_def)
  have log: "fst (dockerCleanup testName (recording engine_client) ([], ?e1))
      = [CallListContainers \<lparr>opt_All = True\<rparr>, CallListNetworks]"
    by (simp add: dockerCleanup_recording engine_listed c'' n)
  show ?thesis using idem c n log by simp
qed

lemma distinct_ids_filter:
  "distinct (map f xs) \<Longrightarrow>
     filter (\<lambda>x. f x \<notin> f ` {y \<in> set xs. P y}) xs = filter (\<lambda>x. \<not> P x) xs"
  by (rule filter_cong) (auto simp: distinct_map inj_on_def)

lemma engine_dockerCleanup_distinct:
  assumes "distinct (map (\<lambda>x. ID (fst x)) (containers e))" and "distinct (map ID (networks e))"
  shows "dockerCleanup testName engine_client e =
     e\<lparr>containers := filter (\<lambda>x. \<not> has_cleanup_label testName (fst x)) (containers e),
       networks := filter (\<lambda>n. \<not> has_cleanup_label testName n) (networks e)\<rparr>"
proof -
  have c: "filter (\<lambda>x. ID (fst x) \<notin> ID ` {c \<in> fst ` set (containers e). has_cleanup_label testName c})
        (containers e) = filter (\<lambda>x. \<not> has_cleanup_label testName (fst x)) (containers e)"
    using assms(1) by (intro filter_cong) (auto simp: distinct_map inj_on_def)
  have n: "filter (\<lambda>n. ID n \<notin> ID ` {n \<in> set (networks e). has_cleanup_label testName n})
        (networks e) = filter (\<lambda>n. \<not> has_cleanup_label testName n) (networks e)"
    using assms(2) by (rule distinct_ids_filter)
  show ?thesis by (simp add: engine_dockerCleanup c n)
qed

lemma container_target_calls:
  "(Some i \<in> container_target ` set (concat (map container_calls cs))) = (i \<in> ID ` set cs)"
  "Some i \<notin> container_target ` set (concat (map network_calls ns))"
  by (induction cs; auto simp: container_calls_def image_iff)
     (induction ns; auto simp: network_calls_def)

lemma network_target_calls:
  "(Some i \<in> network_target ` set (concat (map network_calls ns))) = (i \<in> ID ` set ns)"
  "Some i \<notin> network_target ` set (concat (map container_calls cs))"
  by (induction ns; auto simp: network_calls_def image_iff)
     (induction cs; auto simp: container_calls_def)

lemma targets_of_run:
  "(Some i \<in> container_target ` set (fst (dockerCleanup testName (recording client) ([], s))))
     = (i \<in> ID ` set (filter (has_cleanup_label testName) (listed_containers client s)))"
  "(Some i \<in> network_target ` set (fst (dockerCleanup testName (recording client) ([], s))))
     = (i \<in> ID ` set (filter (has_cleanup_label testName) (listed_networks testName client s)))"
  using container_target_calls network_target_calls
  by (simp_all add: dockerCleanup_recording image_Un del: set_concat)

text \<open>
  Claim C7: for every state of the engine in which identifiers are unique, a run of the
  cleanup for a test name leaves every container and every network that does not carry
  the label \<open>ibctest\<close> with that test name as it was (present, in the same order, with
  the same labels and the same running state), and no call of the run stops, waits for or
  removes such a resource.
\<close>

theorem dockerCleanup_frame:
  assumes "distinct (map (\<lambda>x. ID (fst x)) (containers e))" and "distinct (map ID (networks e))"
  shows "filter (\<lambda>x. \<not> has_cleanup_label testName (fst x))
           (containers (dockerCleanup testName engine_client e))
         = filter (\<lambda>x. \<not> has_cleanup_label testName (fst x)) (containers e)
     \<and> filter (\<lambda>n. \<not> has_cleanup_label testName n)
           (networks (dockerCleanup testName engine_client e))
         = filter (\<lambda>n. \<not> has_cleanup_label testName n) (networks e)
     \<and> (\<forall>x \<in> set (containers e). \<not> has_cleanup_label testName (fst x) \<longrightarrow>
           Some (ID (fst x)) \<notin> container_target `
             set (fst (dockerCleanup testName (recording engine_client) ([], e))))
     \<and> (\<forall>n \<in> set (networks e). \<not> has_cleanup_label testName n \<longrightarrow>
           Some (ID n) \<notin> network_target `
             set (fst (dockerCleanup testName (recording engine_client) ([], e))))"
proof -
  have a: "filter (\<lambda>x. \<not> has_cleanup_label testName (fst x))
           (containers (dockerCleanup testName engine_client e))
         = filter (\<lambda>x. \<not> has_cleanup_label testName (fst x)) (containers e)"
    by (simp add: engine_dockerCleanup_distinct [OF assms])
  have b: "filter (\<lambda>n. \<not> has_cleanup_label testName n)
           (networks (dockerCleanup testName engine_client e))
         = filter (\<lambda>n. \<not> has_cleanup_label testName n) (networks e)"
    by (simp add: engine_dockerCleanup_distinct [OF assms])
  have c: "Some (ID (fst x)) \<notin> container_target `
             set (fst (dockerCleanup testName (recording engine_client) ([], e)))"
    if "x \<in> set (containers e)" "\<not> has_cleanup_label testName (fst x)" for x
    using that assms(1)
    by (auto simp: targets_of_run engine_listed distinct_map inj_on_def)
  have d: "Some (ID n) \<notin> network_target `
             set (fst (dockerCleanup testName (recording engine_client) ([], e)))"
    if "n \<in> set (networks e)" "\<not> has_cleanup_label testName n" for n
    using that assms(2)
    by (auto simp: targets_of_run engine_listed distinct_map inj_on_def)
  show ?thesis using a b c d by blast
qed

text \<open>
  The theorem at the example state, cleaned up for \<open>TestA\<close>: the container of
  \<open>TestB\<close> and the network without labels are what is left, and no call names them.
\<close>

theorem dockerCleanup_frame_witness:
  "distinct (map (\<lambda>x. ID (fst x)) (containers example_engine))
   \<and> distinct (map ID (networks example_engine))
   \<and> containers (dockerCleanup ''TestA'' engine_client example_engine)
        = [(\<lparr>ID = ''c2'', Labels = [(''ibctest'', ''TestB'')]\<rparr>, True)]
   \<and> networks (dockerCleanup ''TestA'' engine_client example_engine)
        = [\<lparr>ID = ''n2'', Labels = []\<rparr>]
   \<and> Some ''c2'' \<notin> container_target `
         set (fst (dockerCleanup ''TestA'' (recording engine_client) ([], example_engine)))
   \<and> Some ''n2'' \<notin> network_target `
         set (fst (dockerCleanup ''TestA'' (recording engine_client) ([], example_engine)))"
proof -
  have h1: "distinct (map (\<lambda>x. ID (fst x)) (containers example_engine))"
    by (simp add: example_engine_def)
  have h2: "distinct (map ID (networks example_engine))"
    by (simp add: example_engine_def)
  have run: "dockerCleanup ''TestA'' engine_client example_engine
      = \<lparr>containers = [(\<lparr>ID = ''c2'', Labels = [(''ibctest'', ''TestB'')]\<rparr>, True)],
         networks = [\<lparr>ID = ''n2'', Labels = []\<rparr>]\<rparr>"
    by (simp add: dockerCleanup_def engine_client_def example_engine_def CleanupLabel_def
        time_Second_def)
  have c2: "(\<lparr>ID = ''c2'', Labels = [(''ibctest'', ''TestB'')]\<rparr>, True) \<in> set (containers example_engine)"
    by (simp add: example_engine_def)
  have n2: "\<lparr>ID = ''n2'', Labels = []\<rparr> \<in> set (networks example_engine)"
    by (simp add: example_engine_def)
  from dockerCleanup_frame [OF h1 h2, of "''TestA''"] c2 n2
  have "Some ''c2'' \<notin> container_target `
         set (fst (dockerCleanup ''TestA'' (recording engine_client) ([], example_engine)))"
    and "Some ''n2'' \<notin> network_target `
         set (fst (dockerCleanup ''TestA'' (recording engine_client) ([], example_engine)))"
    by (force simp: has_cleanup_label_def)+
  then show ?thesis using h1 h2 run by simp
qed

end
